theory Spec2Isabelle
  imports Complex_Main
begin

section \<open>Differentiable 2D resampling: the CPU kernels of resampler_ops.cc\<close>

text \<open>
  The development embeds \<^verbatim>\<open>tensorflow_addons/custom_ops/image/cc/kernels/resampler_ops.cc\<close>.

  Conventions of the embedding.
  \<^item> A scalar of the element type \<^verbatim>\<open>T\<close> (half, float, double) and a C++ \<^verbatim>\<open>float\<close> are
    exact rationals: the rounding of the arithmetic, infinities and NaN are not modelled.
    In the forward pass a \<^verbatim>\<open>static_cast\<close> between \<^verbatim>\<open>T\<close> and \<^verbatim>\<open>float\<close> is the identity: there
    the cast coordinate is used throughout, and the result is the interpolation at a
    coordinate that differs from \<open>x\<close> by rounding. In the backward pass the floor is taken
    of the cast coordinate while \<open>dx\<close> is taken of the coordinate itself, so the cast
    \<^verbatim>\<open>static_cast<float>(x)\<close> is a parameter \<open>static_cast_float\<close> of the backward functions:
    the identity for \<^verbatim>\<open>T = float\<close> and \<^verbatim>\<open>T = Eigen::half\<close>, the rounding \<open>double_to_float\<close>
    for \<^verbatim>\<open>T = double\<close>.
  \<^item> Sizes, strides and loop counters (C++ \<^verbatim>\<open>int\<close>, never negative) are natural numbers;
    pixel coordinates, which do go negative, are integers. No 32-bit overflow is modelled.
  \<^item> A flat buffer is a list; a write out of range leaves the list as it is and a read
    out of range is unspecified (both are undefined behaviour in C++).
  \<^item> \<^verbatim>\<open>ParallelFor(batch_size, cost, work)\<close> is the single call \<^verbatim>\<open>work(0, batch_size)\<close>.
\<close>

subsection \<open>Kernel catalogue\<close>

text \<open>
  The enumeration \<^verbatim>\<open>tensorflow::functor::SamplingKernelType\<close> is declared in TensorFlow's
  \<^verbatim>\<open>sampling_kernels.h\<close>; its members are the ones the source names.
\<close>

datatype SamplingKernelType =
    Lanczos1Kernel
  | Lanczos3Kernel
  | Lanczos5Kernel
  | GaussianKernel
  | BoxKernel
  | TriangleKernel
  | KeysCubicKernel
  | MitchellCubicKernel
  | SamplingKernelTypeEnd

text \<open>\<^verbatim>\<open>absl::AsciiStrToLower\<close>: the letters A to Z are mapped to a to z, every other byte is kept.\<close>

definition ascii_tolower :: "char \<Rightarrow> char" where
  "ascii_tolower c =
     (let n = (of_char c :: nat) in if 65 \<le> n \<and> n \<le> 90 then char_of (n + 32) else c)"

definition AsciiStrToLower :: "string \<Rightarrow> string" where
  "AsciiStrToLower str = map ascii_tolower str"

definition SamplingKernelTypeFromString :: "string \<Rightarrow> SamplingKernelType" where
  "SamplingKernelTypeFromString str =
     (let lower_case = AsciiStrToLower str in
      if lower_case = ''lanczos1'' then Lanczos1Kernel
      else if lower_case = ''lanczos3'' then Lanczos3Kernel
      else if lower_case = ''lanczos5'' then Lanczos5Kernel
      else if lower_case = ''gaussian'' then GaussianKernel
      else if lower_case = ''box'' then BoxKernel
      else if lower_case = ''triangle'' then TriangleKernel
      else if lower_case = ''keyscubic'' then KeysCubicKernel
      else if lower_case = ''mitchellcubic'' then MitchellCubicKernel
      else SamplingKernelTypeEnd)"

text \<open>
  A sampling kernel object: \<^verbatim>\<open>Radius()\<close> and the weight \<^verbatim>\<open>operator()\<close>. The kernel classes
  belong to TensorFlow; the resampler only calls these two members.
\<close>

record sampling_kernel =
  Radius :: rat
  weight :: "rat \<Rightarrow> rat"

subsection \<open>Status values and operator construction\<close>

datatype error =
    InvalidArgument string
  | Unimplemented string

text \<open>
  \<^verbatim>\<open>OpKernelConstruction\<close>: the resampler uses its attribute lookup only, which answers
  with a status or the attribute's string.
\<close>

record OpKernelConstruction =
  GetAttr :: "string \<Rightarrow> error + string"

text \<open>The member \<^verbatim>\<open>kernel_type_\<close> of the operator is the field \<open>kernel_type_m\<close>.\<close>

record ResamplerOp =
  kernel_type_m :: SamplingKernelType

text \<open>
  The constructor of \<^verbatim>\<open>ResamplerOp\<close>: \<^verbatim>\<open>OP_REQUIRES_OK\<close> on the attribute lookup, then
  \<^verbatim>\<open>OP_REQUIRES\<close> that the resolved type is not \<^verbatim>\<open>SamplingKernelTypeEnd\<close>.
\<close>

definition ResamplerOp_new :: "OpKernelConstruction \<Rightarrow> error + ResamplerOp" where
  "ResamplerOp_new context =
     (case GetAttr context ''kernel_type'' of
        Inl status \<Rightarrow> Inl status
      | Inr kernel_type_str \<Rightarrow>
          (let kt = SamplingKernelTypeFromString kernel_type_str in
           if kt \<noteq> SamplingKernelTypeEnd then Inr \<lparr>kernel_type_m = kt\<rparr>
           else Inl (InvalidArgument (''Unrecognized kernel type: '' @ kernel_type_str))))"

text \<open>The constructor of \<^verbatim>\<open>ResamplerGradOp\<close> has an empty body; the operator has no fields.\<close>

definition ResamplerGradOp_new :: "OpKernelConstruction \<Rightarrow> error + unit" where
  "ResamplerGradOp_new context = Inr ()"

subsection \<open>Forward pass: \<^verbatim>\<open>Resampler2DFunctor<CPUDevice, T>\<close>\<close>

text \<open>
  The validity window of a warp coordinate, the test that opens the body of both the
  forward and the backward sample loop.
\<close>

definition in_window :: "nat \<Rightarrow> nat \<Rightarrow> rat \<Rightarrow> rat \<Rightarrow> bool" where
  "in_window data_height data_width x y \<longleftrightarrow>
     x > -1 \<and> y > -1 \<and> x < of_nat data_width \<and> y < of_nat data_height"

definition point_is_in_range :: "nat \<Rightarrow> nat \<Rightarrow> int \<Rightarrow> int \<Rightarrow> bool" where
  "point_is_in_range data_height data_width x y \<longleftrightarrow>
     x \<ge> 0 \<and> y \<ge> 0 \<and> x \<le> int data_width - 1 \<and> y \<le> int data_height - 1"

text \<open>
  The NHWC offset \<^verbatim>\<open>batch_id * data_batch_stride + data_channels * (y * data_width + x) + chan\<close>,
  with \<^verbatim>\<open>data_batch_stride = data_height * data_width * data_channels\<close>.
\<close>

definition data_index :: "nat \<Rightarrow> nat \<Rightarrow> nat \<Rightarrow> nat \<Rightarrow> int \<Rightarrow> int \<Rightarrow> nat \<Rightarrow> nat" where
  "data_index data_height data_width data_channels batch_id x y chan =
     nat (int batch_id * int (data_height * data_width * data_channels)
          + int data_channels * (y * int data_width + x) + int chan)"

definition get_data_point ::
  "rat list \<Rightarrow> nat \<Rightarrow> nat \<Rightarrow> nat \<Rightarrow> nat \<Rightarrow> int \<Rightarrow> int \<Rightarrow> nat \<Rightarrow> rat" where
  "get_data_point data data_height data_width data_channels batch_id x y chan =
     (if point_is_in_range data_height data_width x y
      then data ! data_index data_height data_width data_channels batch_id x y chan
      else 0)"

definition set_output ::
  "nat \<Rightarrow> nat \<Rightarrow> nat \<Rightarrow> nat \<Rightarrow> nat \<Rightarrow> rat \<Rightarrow> rat list \<Rightarrow> rat list" where
  "set_output data_channels num_sampling_points batch_id sample_id channel v output =
     output[batch_id * (num_sampling_points * data_channels) + sample_id * data_channels + channel
              := v]"

text \<open>
  What \<^verbatim>\<open>res\<close> holds after the two loops over \<^verbatim>\<open>inx\<close> and \<^verbatim>\<open>iny\<close>, for one channel
  of a sample at \<open>(x, y)\<close>.
\<close>

definition resample_res ::
  "sampling_kernel \<Rightarrow> rat list \<Rightarrow> nat \<Rightarrow> nat \<Rightarrow> nat \<Rightarrow> nat \<Rightarrow> rat \<Rightarrow> rat \<Rightarrow> nat \<Rightarrow> rat" where
  "resample_res kern data data_height data_width data_channels batch_id x y chan =
     (let fx = \<lfloor>x\<rfloor>;
          fy = \<lfloor>y\<rfloor>;
          span_size = \<lceil>Radius kern\<rceil>
      in fold (\<lambda>inx res.
           fold (\<lambda>iny res.
             let cx = fx + inx;
                 cy = fy + iny;
                 dx = of_int cx - x;
                 dy = of_int cy - y
             in res + get_data_point data data_height data_width data_channels batch_id cx cy chan
                        * (weight kern dx * weight kern dy))
             [- span_size..span_size] res)
           [- span_size..span_size] 0)"

text \<open>The body of the loop over \<^verbatim>\<open>sample_id\<close>.\<close>

definition resample_sample ::
  "sampling_kernel \<Rightarrow> rat list \<Rightarrow> rat list \<Rightarrow> nat \<Rightarrow> nat \<Rightarrow> nat \<Rightarrow> nat \<Rightarrow> nat \<Rightarrow> nat
     \<Rightarrow> rat list \<Rightarrow> rat list" where
  "resample_sample kern data warp data_height data_width data_channels num_sampling_points
       batch_id sample_id output =
     (let x = warp ! (batch_id * (num_sampling_points * 2) + sample_id * 2);
          y = warp ! (batch_id * (num_sampling_points * 2) + sample_id * 2 + 1)
      in if in_window data_height data_width x y
         then fold (\<lambda>chan. set_output data_channels num_sampling_points batch_id sample_id chan
                      (resample_res kern data data_height data_width data_channels batch_id
                         x y chan))
                [0..<data_channels] output
         else fold (\<lambda>chan. set_output data_channels num_sampling_points batch_id sample_id chan 0)
                [0..<data_channels] output)"

definition resample_batches ::
  "sampling_kernel \<Rightarrow> rat list \<Rightarrow> rat list \<Rightarrow> nat \<Rightarrow> nat \<Rightarrow> nat \<Rightarrow> nat \<Rightarrow> nat \<Rightarrow> nat
     \<Rightarrow> rat list \<Rightarrow> rat list" where
  "resample_batches kern data warp data_height data_width data_channels num_sampling_points
       start limit output =
     fold (\<lambda>batch_id.
        fold (resample_sample kern data warp data_height data_width data_channels
                num_sampling_points batch_id)
          [0..<num_sampling_points])
       [start..<limit] output"

text \<open>
  The functor. \<open>CreateKeysCubicKernel\<close> stands for the kernel object that TensorFlow's
  function of that name returns; the argument \<open>kernel_type\<close> is received and, as in the
  source, not used.
\<close>

definition Resampler2DFunctor ::
  "sampling_kernel \<Rightarrow> rat list \<Rightarrow> rat list \<Rightarrow> rat list \<Rightarrow> nat \<Rightarrow> nat \<Rightarrow> nat \<Rightarrow> nat \<Rightarrow> nat
     \<Rightarrow> SamplingKernelType \<Rightarrow> rat list" where
  "Resampler2DFunctor CreateKeysCubicKernel data warp output batch_size data_height data_width
       data_channels num_sampling_points kernel_type =
     (let kern = CreateKeysCubicKernel
      in resample_batches kern data warp data_height data_width data_channels
           num_sampling_points 0 batch_size output)"

subsection \<open>Tensors and \<^verbatim>\<open>ResamplerOp::Compute\<close>\<close>

record Tensor =
  shape :: "nat list"
  flat :: "rat list"

definition NumElements :: "Tensor \<Rightarrow> nat" where
  "NumElements t = prod_list (shape t)"

definition IsMatrixOrHigher :: "nat list \<Rightarrow> bool" where
  "IsMatrixOrHigher shp \<longleftrightarrow> length shp \<ge> 2"

text \<open>
  \<^verbatim>\<open>allocate_output(index, shape, &t)\<close> hands out a buffer of the shape's size whose
  content is whatever the memory held: \<open>uninit index\<close> gives that content per offset.
\<close>

definition allocate_output :: "(nat \<Rightarrow> nat \<Rightarrow> rat) \<Rightarrow> nat \<Rightarrow> nat list \<Rightarrow> Tensor" where
  "allocate_output uninit index shp =
     \<lparr>shape = shp, flat = map (uninit index) [0..<prod_list shp]\<rparr>"

text \<open>
  \<^verbatim>\<open>ResamplerOp::Compute\<close>. The status messages are abridged.
\<close>

definition ResamplerOp_Compute ::
  "sampling_kernel \<Rightarrow> ResamplerOp \<Rightarrow> (nat \<Rightarrow> nat \<Rightarrow> rat) \<Rightarrow> Tensor \<Rightarrow> Tensor \<Rightarrow> error + Tensor" where
  "ResamplerOp_Compute CreateKeysCubicKernel op uninit data warp =
     (let data_shape = shape data in
      if length data_shape \<noteq> 4
      then Inl (Unimplemented ''Only bilinear interpolation is currently supported.'')
      else let warp_shape = shape warp in
      if \<not> IsMatrixOrHigher warp_shape
      then Inl (InvalidArgument ''warp should be at least a matrix'')
      else if warp_shape ! (length warp_shape - 1) \<noteq> 2
      then Inl (Unimplemented ''warp shape last entry should be 2'')
      else if data_shape ! 0 \<noteq> warp_shape ! 0
      then Inl (InvalidArgument ''Batch size of data and warp tensor must be the same'')
      else
        let batch_size = data_shape ! 0;
            data_height = data_shape ! 1;
            data_width = data_shape ! 2;
            data_channels = data_shape ! 3;
            output_shape = (shape warp)[length (shape warp) - 1 := data_channels];
            output = allocate_output uninit 0 output_shape
        in if NumElements data > 0 \<and> NumElements warp > 0
           then let num_sampling_points = NumElements warp div batch_size div 2
                in Inr (output\<lparr>flat :=
                     Resampler2DFunctor CreateKeysCubicKernel (flat data) (flat warp) (flat output)
                       batch_size data_height data_width data_channels num_sampling_points
                       (kernel_type_m op)\<rparr>)
           else Inr output)"

subsection \<open>Backward pass: \<^verbatim>\<open>ResamplerGrad2DFunctor<CPUDevice, T>\<close>\<close>

text \<open>The gradient buffers are threaded through as the pair \<open>(grad_data, grad_warp)\<close>.\<close>

definition update_grad_data ::
  "nat \<Rightarrow> nat \<Rightarrow> nat \<Rightarrow> nat \<Rightarrow> int \<Rightarrow> int \<Rightarrow> nat \<Rightarrow> rat \<Rightarrow> rat list \<Rightarrow> rat list" where
  "update_grad_data data_height data_width data_channels batch_id x y chan v grad_data =
     (if point_is_in_range data_height data_width x y
      then let i = data_index data_height data_width data_channels batch_id x y chan
           in grad_data[i := grad_data ! i + v]
      else grad_data)"

definition update_grad_warp :: "nat \<Rightarrow> nat \<Rightarrow> nat \<Rightarrow> nat \<Rightarrow> rat \<Rightarrow> rat list \<Rightarrow> rat list" where
  "update_grad_warp num_sampling_points batch_id sample_id channel v grad_warp =
     (let i = batch_id * (num_sampling_points * 2) + sample_id * 2 + channel
      in grad_warp[i := grad_warp ! i + v])"

text \<open>
  The body of the loop over \<^verbatim>\<open>chan\<close>; \<open>fx\<close>, \<open>fy\<close>, \<open>cx\<close>, \<open>cy\<close>, \<open>dx\<close> and \<open>dy\<close> are
  computed before the loop.
\<close>

fun update_grads_channel ::
  "rat list \<Rightarrow> rat list \<Rightarrow> nat \<Rightarrow> nat \<Rightarrow> nat \<Rightarrow> nat \<Rightarrow> nat \<Rightarrow> nat
     \<Rightarrow> int \<Rightarrow> int \<Rightarrow> int \<Rightarrow> int \<Rightarrow> rat \<Rightarrow> rat \<Rightarrow> nat
     \<Rightarrow> rat list \<times> rat list \<Rightarrow> rat list \<times> rat list" where
  "update_grads_channel data grad_output data_height data_width data_channels num_sampling_points
       batch_id sample_id fx fy cx cy dx dy chan (grad_data, grad_warp) =
     (let grad_output_value =
            grad_output ! (batch_id * (num_sampling_points * data_channels)
                           + sample_id * data_channels + chan);
          img_fxfy = get_data_point data data_height data_width data_channels batch_id fx fy chan;
          img_cxcy = get_data_point data data_height data_width data_channels batch_id cx cy chan;
          img_fxcy = get_data_point data data_height data_width data_channels batch_id fx cy chan;
          img_cxfy = get_data_point data data_height data_width data_channels batch_id cx fy chan;
          grad_warp = update_grad_warp num_sampling_points batch_id sample_id 0
                        (grad_output_value * ((1 - dy) * (img_cxcy - img_fxcy)
                                              + dy * (img_cxfy - img_fxfy))) grad_warp;
          grad_warp = update_grad_warp num_sampling_points batch_id sample_id 1
                        (grad_output_value * ((1 - dx) * (img_cxcy - img_cxfy)
                                              + dx * (img_fxcy - img_fxfy))) grad_warp;
          grad_data = update_grad_data data_height data_width data_channels batch_id fx fy chan
                        (grad_output_value * dx * dy) grad_data;
          grad_data = update_grad_data data_height data_width data_channels batch_id cx cy chan
                        (grad_output_value * (1 - dx) * (1 - dy)) grad_data;
          grad_data = update_grad_data data_height data_width data_channels batch_id fx cy chan
                        (grad_output_value * dx * (1 - dy)) grad_data;
          grad_data = update_grad_data data_height data_width data_channels batch_id cx fy chan
                        (grad_output_value * (1 - dx) * dy) grad_data
      in (grad_data, grad_warp))"

text \<open>
  The body of the loop over \<^verbatim>\<open>sample_id\<close>. The window test and \<open>dx\<close>, \<open>dy\<close> use the
  coordinate in \<^verbatim>\<open>T\<close>; the floor is taken of the coordinate cast to \<^verbatim>\<open>float\<close>.
\<close>

definition update_grads_sample ::
  "(rat \<Rightarrow> rat) \<Rightarrow> rat list \<Rightarrow> rat list \<Rightarrow> rat list \<Rightarrow> nat \<Rightarrow> nat \<Rightarrow> nat \<Rightarrow> nat \<Rightarrow> nat \<Rightarrow> nat
     \<Rightarrow> rat list \<times> rat list \<Rightarrow> rat list \<times> rat list" where
  "update_grads_sample static_cast_float data warp grad_output data_height data_width data_channels
       num_sampling_points batch_id sample_id grads =
     (let x = warp ! (batch_id * (num_sampling_points * 2) + sample_id * 2);
          y = warp ! (batch_id * (num_sampling_points * 2) + sample_id * 2 + 1)
      in if in_window data_height data_width x y
         then let fx = \<lfloor>static_cast_float x\<rfloor>;
                  fy = \<lfloor>static_cast_float y\<rfloor>;
                  cx = fx + 1;
                  cy = fy + 1;
                  dx = of_int cx - x;
                  dy = of_int cy - y
              in fold (update_grads_channel data grad_output data_height data_width data_channels
                         num_sampling_points batch_id sample_id fx fy cx cy dx dy)
                   [0..<data_channels] grads
         else grads)"

definition update_grads_for_batches ::
  "(rat \<Rightarrow> rat) \<Rightarrow> rat list \<Rightarrow> rat list \<Rightarrow> rat list \<Rightarrow> nat \<Rightarrow> nat \<Rightarrow> nat \<Rightarrow> nat \<Rightarrow> nat \<Rightarrow> nat
     \<Rightarrow> rat list \<times> rat list \<Rightarrow> rat list \<times> rat list" where
  "update_grads_for_batches static_cast_float data warp grad_output data_height data_width data_channels
       num_sampling_points start limit grads =
     fold (\<lambda>batch_id.
        fold (update_grads_sample static_cast_float data warp grad_output data_height data_width data_channels
                num_sampling_points batch_id)
          [0..<num_sampling_points])
       [start..<limit] grads"

text \<open>\<^verbatim>\<open>memset(buf, 0, sizeof(T) * k)\<close>: the first \<open>k\<close> elements become zero.\<close>

definition memset_zero :: "rat list \<Rightarrow> nat \<Rightarrow> rat list" where
  "memset_zero buf k = replicate (min k (length buf)) 0 @ drop k buf"

definition ResamplerGrad2DFunctor ::
  "(rat \<Rightarrow> rat) \<Rightarrow> rat list \<Rightarrow> rat list \<Rightarrow> rat list \<Rightarrow> rat list \<Rightarrow> rat list \<Rightarrow> nat \<Rightarrow> nat \<Rightarrow> nat \<Rightarrow> nat \<Rightarrow> nat
     \<Rightarrow> rat list \<times> rat list" where
  "ResamplerGrad2DFunctor static_cast_float data warp grad_output grad_data grad_warp batch_size data_height
       data_width data_channels num_sampling_points =
     (let resampler_output_size = batch_size * num_sampling_points * data_channels;
          grad_warp_size = resampler_output_size div data_channels * 2;
          grad_data_size = data_height * data_width * data_channels * batch_size;
          grad_data = memset_zero grad_data grad_data_size;
          grad_warp = memset_zero grad_warp grad_warp_size
      in update_grads_for_batches static_cast_float data warp grad_output data_height data_width data_channels
           num_sampling_points 0 batch_size (grad_data, grad_warp))"

text \<open>\<^verbatim>\<open>ResamplerGradOp::Compute\<close>, with the messages abridged as above.\<close>

definition ResamplerGradOp_Compute ::
  "(rat \<Rightarrow> rat) \<Rightarrow> (nat \<Rightarrow> nat \<Rightarrow> rat) \<Rightarrow> Tensor \<Rightarrow> Tensor \<Rightarrow> Tensor \<Rightarrow> error + Tensor \<times> Tensor" where
  "ResamplerGradOp_Compute static_cast_float uninit data warp grad_output =
     (let data_shape = shape data in
      if length data_shape \<noteq> 4
      then Inl (Unimplemented ''Only bilinear interpolation is supported, the input data tensor must be a batch of 2d data'')
      else
        let batch_size = data_shape ! 0;
            data_height = data_shape ! 1;
            data_width = data_shape ! 2;
            data_channels = data_shape ! 3;
            warp_shape = shape warp
        in
      if \<not> IsMatrixOrHigher warp_shape
      then Inl (InvalidArgument ''warp should be at least a matrix'')
      else if warp_shape ! (length warp_shape - 1) \<noteq> 2
      then Inl (Unimplemented ''warp shape last entry should be 2'')
      else
        let grad_output_shape = shape grad_output;
            resampler_output_shape = (shape warp)[length (shape warp) - 1 := data_channels]
        in
      if grad_output_shape \<noteq> resampler_output_shape
      then Inl (InvalidArgument ''grad_output shape is not consistent with data and warp shapes'')
      else
        let grad_data = allocate_output uninit 0 (shape data);
            grad_warp = allocate_output uninit 1 (shape warp)
        in if NumElements data > 0 \<and> NumElements warp > 0
           then let num_sampling_points = NumElements warp div batch_size div 2;
                    grads = ResamplerGrad2DFunctor static_cast_float (flat data) (flat warp) (flat grad_output)
                              (flat grad_data) (flat grad_warp) batch_size data_height data_width
                              data_channels num_sampling_points
                in Inr (grad_data\<lparr>flat := fst grads\<rparr>, grad_warp\<lparr>flat := snd grads\<rparr>)
           else Inr (grad_data, grad_warp))"

subsection \<open>The cast from \<^verbatim>\<open>double\<close> to \<^verbatim>\<open>float\<close>\<close>

text \<open>
  \<^verbatim>\<open>static_cast<float>\<close> of a \<^verbatim>\<open>double\<close>: the nearest number with a significand of 24 bits,
  ties to the even significand. The exponent range of \<^verbatim>\<open>float\<close> (overflow, subnormal numbers)
  is not modelled.
\<close>

function bit_length :: "int \<Rightarrow> nat" where
  "bit_length n = (if n \<le> 0 then 0 else Suc (bit_length (n div 2)))"
  by pat_completeness auto
termination
  by (relation "measure nat") auto

declare bit_length.simps [simp del]

definition pow2 :: "int \<Rightarrow> rat" where
  "pow2 k = (if k \<ge> 0 then 2 ^ nat k else 1 / 2 ^ nat (- k))"

definition round_half_even :: "rat \<Rightarrow> int" where
  "round_half_even v =
     (let f = \<lfloor>v\<rfloor>; r = v - of_int f
      in if r < 1/2 then f else if r > 1/2 then f + 1 else if even f then f else f + 1)"

definition double_to_float :: "rat \<Rightarrow> rat" where
  "double_to_float x =
     (if x = 0 then 0
      else let a = \<bar>x\<bar>;
               (p, q) = quotient_of a;
               e0 = int (bit_length p) - int (bit_length q);
               e = (if pow2 e0 \<le> a then e0 else e0 - 1);
               ulp = pow2 (e - 23)
           in sgn x * of_int (round_half_even (a / ulp)) * ulp)"

subsection \<open>The two kernels used in the examples\<close>

text \<open>
  \<^verbatim>\<open>KeysCubicKernelFunc\<close> and \<^verbatim>\<open>TriangleKernelFunc\<close> as TensorFlow's \<^verbatim>\<open>sampling_kernels.h\<close>
  defines them; they serve to evaluate the functor on concrete inputs, and every general
  statement below holds for an arbitrary kernel object.
\<close>

definition KeysCubicKernelFunc :: sampling_kernel where
  "KeysCubicKernelFunc =
     \<lparr>Radius = 2,
      weight = (\<lambda>x. let x = \<bar>x\<bar> in
                  if x \<ge> 2 then 0
                  else if x \<ge> 1 then ((- (1/2) * x + 5/2) * x - 4) * x + 2
                  else ((3/2 * x - 5/2) * x) * x + 1)\<rparr>"

definition TriangleKernelFunc :: sampling_kernel where
  "TriangleKernelFunc =
     \<lparr>Radius = 1, weight = (\<lambda>x. let x = \<bar>x\<bar> in if x < 1 then 1 - x else 0)\<rparr>"

subsection \<open>Auxiliary notions\<close>

text \<open>
  A buffer transformer writes the block of \<open>sz\<close> cells at \<open>base\<close> with the values \<open>v\<close> and
  leaves every other cell and the length of a buffer of length \<open>len\<close> as they are.
\<close>

definition writes_block ::
  "('a list \<Rightarrow> 'a list) \<Rightarrow> nat \<Rightarrow> nat \<Rightarrow> (nat \<Rightarrow> 'a) \<Rightarrow> nat \<Rightarrow> bool" where
  "writes_block F base sz v len \<longleftrightarrow>
     (\<forall>out. length out = len \<longrightarrow>
        length (F out) = len
      \<and> (\<forall>i<sz. F out ! (base + i) = v i)
      \<and> (\<forall>j. j < base \<or> base + sz \<le> j \<longrightarrow> F out ! j = out ! j))"

text \<open>What the forward sample loop stores for one channel of one sample.\<close>

definition sample_value ::
  "sampling_kernel \<Rightarrow> rat list \<Rightarrow> rat list \<Rightarrow> nat \<Rightarrow> nat \<Rightarrow> nat \<Rightarrow> nat \<Rightarrow> nat \<Rightarrow> nat \<Rightarrow> nat
     \<Rightarrow> rat" where
  "sample_value kern data warp data_height data_width data_channels num_sampling_points
       batch_id sample_id chan =
     (let x = warp ! (batch_id * (num_sampling_points * 2) + sample_id * 2);
          y = warp ! (batch_id * (num_sampling_points * 2) + sample_id * 2 + 1)
      in if in_window data_height data_width x y
         then resample_res kern data data_height data_width data_channels batch_id x y chan
         else 0)"

text \<open>
  What one pass of the backward channel loop adds to cell \<open>j\<close> of \<open>grad_data\<close> and of
  \<open>grad_warp\<close>.
\<close>

definition grad_data_addend ::
  "rat list \<Rightarrow> nat \<Rightarrow> nat \<Rightarrow> nat \<Rightarrow> nat \<Rightarrow> nat \<Rightarrow> nat
     \<Rightarrow> int \<Rightarrow> int \<Rightarrow> int \<Rightarrow> int \<Rightarrow> rat \<Rightarrow> rat \<Rightarrow> nat \<Rightarrow> nat \<Rightarrow> rat" where
  "grad_data_addend grad_output data_height data_width data_channels num_sampling_points
       batch_id sample_id fx fy cx cy dx dy chan j =
     (let g = grad_output ! (batch_id * (num_sampling_points * data_channels)
                             + sample_id * data_channels + chan);
          hit = (\<lambda>x y. point_is_in_range data_height data_width x y
                        \<and> j = data_index data_height data_width data_channels batch_id x y chan)
      in (if hit fx fy then g * dx * dy else 0)
       + (if hit cx cy then g * (1 - dx) * (1 - dy) else 0)
       + (if hit fx cy then g * dx * (1 - dy) else 0)
       + (if hit cx fy then g * (1 - dx) * dy else 0))"

definition grad_warp_addend ::
  "rat list \<Rightarrow> rat list \<Rightarrow> nat \<Rightarrow> nat \<Rightarrow> nat \<Rightarrow> nat \<Rightarrow> nat \<Rightarrow> nat
     \<Rightarrow> int \<Rightarrow> int \<Rightarrow> int \<Rightarrow> int \<Rightarrow> rat \<Rightarrow> rat \<Rightarrow> nat \<Rightarrow> nat \<Rightarrow> rat" where
  "grad_warp_addend data grad_output data_height data_width data_channels num_sampling_points
       batch_id sample_id fx fy cx cy dx dy chan j =
     (let g = grad_output ! (batch_id * (num_sampling_points * data_channels)
                             + sample_id * data_channels + chan);
          img = (\<lambda>x y. get_data_point data data_height data_width data_channels batch_id x y chan);
          i = batch_id * (num_sampling_points * 2) + sample_id * 2
      in (if j = i then g * ((1 - dy) * (img cx cy - img fx cy) + dy * (img cx fy - img fx fy))
          else 0)
       + (if j = i + 1 then g * ((1 - dx) * (img cx cy - img cx fy) + dx * (img fx cy - img fx fy))
          else 0))"

text \<open>The names the catalogue recognises, in the order of the source.\<close>

definition recognized_names :: "string list" where
  "recognized_names =
     [''lanczos1'', ''lanczos3'', ''lanczos5'', ''gaussian'', ''box'', ''triangle'',
      ''keyscubic'', ''mitchellcubic'']"

section \<open>Properties\<close>

subsection \<open>Kernel name resolution and construction\<close>

lemma SamplingKernelTypeFromString_End_iff:
  "SamplingKernelTypeFromString str = SamplingKernelTypeEnd
     \<longleftrightarrow> AsciiStrToLower str \<notin> set recognized_names"
  by (simp add: SamplingKernelTypeFromString_def recognized_names_def Let_def)

text \<open>
  C6. When the attribute lookup delivers the string \<open>s\<close>, the forward operator is
  constructed if and only if the lower-cased \<open>s\<close> is one of the eight recognised names;
  the operator then holds the resolved kernel type, which is not the sentinel; every
  other string resolves to the sentinel \<open>SamplingKernelTypeEnd\<close> and construction fails
  with the invalid-argument status "Unrecognized kernel type: s".
\<close>

theorem ResamplerOp_new_iff_recognized:
  assumes "GetAttr context ''kernel_type'' = Inr s"
  shows "((\<exists>op. ResamplerOp_new context = Inr op)
            \<longleftrightarrow> AsciiStrToLower s \<in> set recognized_names)
       \<and> (AsciiStrToLower s \<in> set recognized_names \<longrightarrow>
            ResamplerOp_new context = Inr \<lparr>kernel_type_m = SamplingKernelTypeFromString s\<rparr>
          \<and> SamplingKernelTypeFromString s \<noteq> SamplingKernelTypeEnd)
       \<and> (AsciiStrToLower s \<notin> set recognized_names \<longrightarrow>
            SamplingKernelTypeFromString s = SamplingKernelTypeEnd
          \<and> ResamplerOp_new context = Inl (InvalidArgument (''Unrecognized kernel type: '' @ s)))"
  using assms SamplingKernelTypeFromString_End_iff [of s]
  by (simp add: ResamplerOp_new_def Let_def)

lemma AsciiStrToLower_KeysCubic: "AsciiStrToLower ''KeysCubic'' = ''keyscubic''"
  by code_simp

lemma AsciiStrToLower_bilinear: "AsciiStrToLower ''bilinear'' = ''bilinear''"
  by code_simp

theorem ResamplerOp_new_iff_recognized_witness:
  "ResamplerOp_new \<lparr>GetAttr = (\<lambda>_. Inr ''KeysCubic'')\<rparr> = Inr \<lparr>kernel_type_m = KeysCubicKernel\<rparr>
 \<and> ResamplerOp_new \<lparr>GetAttr = (\<lambda>_. Inr ''bilinear'')\<rparr>
      = Inl (InvalidArgument ''Unrecognized kernel type: bilinear'')"
  using ResamplerOp_new_iff_recognized [of "\<lparr>GetAttr = (\<lambda>_. Inr ''KeysCubic'')\<rparr>" "''KeysCubic''"]
        ResamplerOp_new_iff_recognized [of "\<lparr>GetAttr = (\<lambda>_. Inr ''bilinear'')\<rparr>" "''bilinear''"]
  by (simp add: AsciiStrToLower_KeysCubic AsciiStrToLower_bilinear recognized_names_def
        SamplingKernelTypeFromString_def)

text \<open>
  C10. The backward operator is constructed in every construction context: whatever
  the attribute lookup answers (a status, an unrecognised kernel name), the constructor
  returns the operator. A failure of the backward operator therefore arises at
  invocation only, and then from one of its shape checks.
\<close>

theorem ResamplerGradOp_new_succeeds:
  "(\<exists>op. ResamplerGradOp_new context = Inr op)
 \<and> ((\<exists>e. ResamplerGradOp_Compute static_cast_float uninit data warp grad_output = Inl e) \<longrightarrow>
        length (shape data) \<noteq> 4
      \<or> length (shape warp) < 2
      \<or> shape warp ! (length (shape warp) - 1) \<noteq> 2
      \<or> shape grad_output \<noteq> (shape warp)[length (shape warp) - 1 := shape data ! 3])"
  by (auto simp: ResamplerGradOp_new_def ResamplerGradOp_Compute_def IsMatrixOrHigher_def Let_def
        split: if_splits)

theorem ResamplerGradOp_new_succeeds_witness:
  "ResamplerGradOp_new \<lparr>GetAttr = (\<lambda>_. Inr ''bilinear'')\<rparr> = Inr ()
 \<and> (\<exists>e. ResamplerGradOp_Compute (\<lambda>x. x) (\<lambda>_ _. 0) \<lparr>shape = [1, 1, 1], flat = [5]\<rparr>
            \<lparr>shape = [1, 1, 2], flat = [0, 0]\<rparr> \<lparr>shape = [1, 1], flat = [1]\<rparr> = Inl e)
 \<and> length (shape \<lparr>shape = [1, 1, 1], flat = [5 :: rat]\<rparr>) \<noteq> 4"
  using ResamplerGradOp_new_succeeds [of "\<lparr>GetAttr = (\<lambda>_. Inr ''bilinear'')\<rparr>" "\<lambda>x. x"
          "\<lambda>_ _. 0"
          "\<lparr>shape = [1, 1, 1], flat = [5]\<rparr>" "\<lparr>shape = [1, 1, 2], flat = [0, 0]\<rparr>"
          "\<lparr>shape = [1, 1], flat = [1]\<rparr>"]
  by (simp add: ResamplerGradOp_Compute_def)

subsection \<open>The forward functor, cell by cell\<close>

lemma writes_block_fold:
  assumes step: "\<And>k. k < m \<Longrightarrow> writes_block (F k) (base + k * sz) sz (v k) len"
  shows "writes_block (fold F [0..<m]) base (m * sz) (\<lambda>j. v (j div sz) (j mod sz)) len"
  using step
proof (induction m)
  case 0
  show ?case by (simp add: writes_block_def)
next
  case (Suc m)
  have IH: "writes_block (fold F [0..<m]) base (m * sz) (\<lambda>j. v (j div sz) (j mod sz)) len"
    using Suc by simp
  have last: "writes_block (F m) (base + m * sz) sz (v m) len"
    using Suc.prems by simp
  show ?case
    unfolding writes_block_def
  proof (intro allI impI conjI)
    fix out :: "'a list" assume len: "length out = len"
    let ?mid = "fold F [0..<m] out"
    have mid_len: "length ?mid = len" using IH len by (simp add: writes_block_def)
    have fin: "fold F [0..<Suc m] out = F m ?mid" by simp
    show "length (fold F [0..<Suc m] out) = len"
      using last mid_len unfolding fin by (simp add: writes_block_def)
    show "fold F [0..<Suc m] out ! (base + i) = v (i div sz) (i mod sz)" if "i < Suc m * sz" for i
    proof (cases "i < m * sz")
      case True
      then have "F m ?mid ! (base + i) = ?mid ! (base + i)"
        using last mid_len by (simp add: writes_block_def)
      also have "\<dots> = v (i div sz) (i mod sz)"
        using IH len True by (simp add: writes_block_def)
      finally show ?thesis unfolding fin .
    next
      case False
      define i' where "i' = i - m * sz"
      have i': "i = m * sz + i'" "i' < sz" using False that by (simp_all add: i'_def)
      then have "F m ?mid ! (base + m * sz + i') = v m i'"
        using last mid_len by (simp add: writes_block_def)
      moreover have "i div sz = m" "i mod sz = i'" using i' by simp_all
      ultimately show ?thesis unfolding fin using i' by (simp add: add.assoc)
    qed
    show "fold F [0..<Suc m] out ! j = out ! j" if "j < base \<or> base + Suc m * sz \<le> j" for j
    proof -
      have "F m ?mid ! j = ?mid ! j"
        using last mid_len that by (auto simp: writes_block_def)
      also have "\<dots> = out ! j"
        using IH len that by (auto simp: writes_block_def)
      finally show ?thesis unfolding fin .
    qed
  qed
qed

lemma writes_block_update:
  assumes "base < len"
  shows "writes_block (\<lambda>out. out[base := x]) base 1 (\<lambda>_. x) len"
  using assms by (auto simp: writes_block_def)



lemma writes_block_channels:
  assumes "base + C \<le> len"
  shows "writes_block (fold (\<lambda>chan out. out[base + chan := v chan]) [0..<C]) base C v len"
proof -
  have "writes_block (fold (\<lambda>chan out. out[base + chan := v chan]) [0..<C]) base (C * 1)
          (\<lambda>j. (\<lambda>k _. v k) (j div 1) (j mod 1)) len"
  proof (rule writes_block_fold)
    fix k assume "k < C"
    then have "base + k * 1 < len" using assms by simp
    then show "writes_block (\<lambda>out. out[base + k := v k]) (base + k * 1) 1 (\<lambda>_. v k) len"
      using writes_block_update [of "base + k * 1" len "v k"] by simp
  qed
  then show ?thesis by simp
qed

lemma set_output_eq:
  "set_output C n b s chan v = (\<lambda>out. out[b * (n * C) + s * C + chan := v])"
  by (rule ext) (simp add: set_output_def)

lemma writes_block_resample_sample:
  assumes "b * (n * C) + s * C + C \<le> len"
  shows "writes_block (resample_sample kern data warp H W C n b s) (b * (n * C) + s * C) C
           (sample_value kern data warp H W C n b s) len"
proof -
  have eq: "resample_sample kern data warp H W C n b s
      = fold (\<lambda>chan out. out[b * (n * C) + s * C + chan := sample_value kern data warp H W C n b s chan])
          [0..<C]"
    by (rule ext) (simp add: resample_sample_def sample_value_def set_output_eq Let_def)
  show ?thesis unfolding eq using assms by (rule writes_block_channels)
qed

lemma writes_block_resample_batch:
  assumes "b * (n * C) + n * C \<le> len"
  shows "writes_block (fold (resample_sample kern data warp H W C n b) [0..<n]) (b * (n * C)) (n * C)
           (\<lambda>j. sample_value kern data warp H W C n b (j div C) (j mod C)) len"
proof (rule writes_block_fold)
  fix k assume "k < n"
  then have "k * C + C \<le> n * C"
    by (metis Suc_leI mult_Suc mult_le_mono1 add.commute)
  then have "b * (n * C) + k * C + C \<le> len" using assms by linarith
  then show "writes_block (resample_sample kern data warp H W C n b k) (b * (n * C) + k * C) C
           (sample_value kern data warp H W C n b k) len"
    by (rule writes_block_resample_sample)
qed

lemma writes_block_resample_batches:
  assumes "bs * (n * C) \<le> len"
  shows "writes_block (resample_batches kern data warp H W C n 0 bs) 0 (bs * (n * C))
           (\<lambda>j. sample_value kern data warp H W C n (j div (n * C)) (j mod (n * C) div C)
                  (j mod (n * C) mod C)) len"
  unfolding resample_batches_def
proof (rule writes_block_fold)
  fix k assume "k < bs"
  then have "k * (n * C) + n * C \<le> bs * (n * C)"
    by (metis Suc_leI mult_Suc mult_le_mono1 add.commute)
  then have "k * (n * C) + n * C \<le> len" using assms by linarith
  then show "writes_block (fold (resample_sample kern data warp H W C n k) [0..<n]) (0 + k * (n * C))
       (n * C) (\<lambda>j. sample_value kern data warp H W C n k (j div C) (j mod C)) len"
    using writes_block_resample_batch [of k n C len kern data warp H W] by simp
qed

lemma output_index_bound:
  assumes "b < bs" "s < n" "c < (C::nat)"
  shows "b * (n * C) + s * C + c < bs * (n * C)"
proof -
  have "s * C + c < n * C"
  proof -
    have "s * C + c < s * C + C" using assms by simp
    also have "\<dots> = Suc s * C" by simp
    also have "\<dots> \<le> n * C" using assms by (intro mult_le_mono1) simp
    finally show ?thesis .
  qed
  then have "b * (n * C) + s * C + c < b * (n * C) + n * C" by simp
  also have "\<dots> = Suc b * (n * C)" by simp
  also have "\<dots> \<le> bs * (n * C)" using assms by (intro mult_le_mono1) simp
  finally show ?thesis .
qed

lemma block_div_mod:
  fixes r m b :: nat
  assumes "r < m"
  shows "(b * m + r) div m = b" "(b * m + r) mod m = r"
  using assms by simp_all

lemma Resampler2DFunctor_nth:
  assumes "b < bs" "s < n" "c < C" "length output = bs * (n * C)"
  shows "Resampler2DFunctor K data warp output bs H W C n kt ! (b * (n * C) + s * C + c)
           = sample_value K data warp H W C n b s c"
proof -
  let ?j = "b * (n * C) + s * C + c"
  have sc: "s * C + c < n * C"
    using output_index_bound [of 0 1 s n c C] assms by simp
  have j: "?j < bs * (n * C)" using assms by (intro output_index_bound)
  have wb: "writes_block (resample_batches K data warp H W C n 0 bs) 0 (bs * (n * C))
           (\<lambda>j. sample_value K data warp H W C n (j div (n * C)) (j mod (n * C) div C)
                  (j mod (n * C) mod C)) (length output)"
    using assms(4) by (intro writes_block_resample_batches) simp
  have "resample_batches K data warp H W C n 0 bs output ! (0 + ?j)
          = sample_value K data warp H W C n (?j div (n * C)) (?j mod (n * C) div C)
                  (?j mod (n * C) mod C)"
    using wb j unfolding writes_block_def by blast
  moreover have "?j div (n * C) = b" "?j mod (n * C) = s * C + c"
    using block_div_mod [OF sc, of b] by (simp_all add: add.assoc)
  moreover have "(s * C + c) div C = s" "(s * C + c) mod C = c"
    using block_div_mod [OF assms(3), of s] by simp_all
  ultimately show ?thesis by (simp add: Resampler2DFunctor_def)
qed

lemma Resampler2DFunctor_length:
  assumes "length output = bs * (n * C)"
  shows "length (Resampler2DFunctor K data warp output bs H W C n kt) = length output"
  using writes_block_resample_batches [of bs n C "length output" K data warp H W] assms
  unfolding writes_block_def Resampler2DFunctor_def by simp

lemma fold_add_sum_list:
  fixes f :: "'b \<Rightarrow> 'a::comm_monoid_add"
  shows "fold (\<lambda>i acc. acc + f i) xs a = a + sum_list (map f xs)"
  by (induction xs arbitrary: a) (simp_all add: add.assoc)

lemma fold_fold_add_sum:
  fixes g :: "int \<Rightarrow> int \<Rightarrow> rat"
  shows "fold (\<lambda>i acc. fold (\<lambda>j acc. acc + g i j) [l..u] acc) [l..u] 0
           = (\<Sum>i = l..u. \<Sum>j = l..u. g i j)"
proof -
  have inner: "(\<lambda>i acc. fold (\<lambda>j acc. acc + g i j) [l..u] acc)
                 = (\<lambda>i acc. acc + (\<Sum>j = l..u. g i j))"
    by (intro ext) (simp add: fold_add_sum_list interv_sum_list_conv_sum_set_int)
  show ?thesis
    unfolding inner by (simp add: fold_add_sum_list interv_sum_list_conv_sum_set_int)
qed

lemma data_index_NHWC:
  assumes "point_is_in_range H W x y"
  shows "data_index H W C b x y c = ((b * H + nat y) * W + nat x) * C + c"
proof -
  obtain nx ny where x: "x = int nx" and y: "y = int ny"
    using assms by (metis point_is_in_range_def zero_le_imp_eq_int)
  have "int b * int (H * W * C) + int C * (int ny * int W + int nx) + int c
          = int (((b * H + ny) * W + nx) * C + c)"
    by (simp add: algebra_simps)
  then have "nat (int b * int (H * W * C) + int C * (int ny * int W + int nx) + int c)
          = ((b * H + ny) * W + nx) * C + c"
    by (simp only: nat_int)
  then show ?thesis unfolding data_index_def x y by (simp only: nat_int)
qed

lemma get_data_point_NHWC:
  "get_data_point data H W C b x y c =
     (if 0 \<le> x \<and> x < int W \<and> 0 \<le> y \<and> y < int H
      then data ! (((b * H + nat y) * W + nat x) * C + c) else 0)"
proof (cases "point_is_in_range H W x y")
  case True
  then show ?thesis
    by (simp add: get_data_point_def data_index_NHWC) (simp add: point_is_in_range_def)
next
  case False
  then show ?thesis
    by (auto simp: get_data_point_def point_is_in_range_def)
qed

lemma resample_res_sum:
  "resample_res K data H W C b x y c =
     (\<Sum>inx = - \<lceil>Radius K\<rceil>..\<lceil>Radius K\<rceil>. \<Sum>iny = - \<lceil>Radius K\<rceil>..\<lceil>Radius K\<rceil>.
        (if 0 \<le> \<lfloor>x\<rfloor> + inx \<and> \<lfloor>x\<rfloor> + inx < int W \<and> 0 \<le> \<lfloor>y\<rfloor> + iny \<and> \<lfloor>y\<rfloor> + iny < int H
         then data ! (((b * H + nat (\<lfloor>y\<rfloor> + iny)) * W + nat (\<lfloor>x\<rfloor> + inx)) * C + c)
         else 0)
        * (weight K (of_int (\<lfloor>x\<rfloor> + inx) - x) * weight K (of_int (\<lfloor>y\<rfloor> + iny) - y)))"
  unfolding resample_res_def Let_def get_data_point_NHWC
  by (rule fold_fold_add_sum)


lemma floor_rat_numeral_simps [simp]:
  "\<lfloor>1 / numeral b :: rat\<rfloor> = 1 div numeral b"
  "\<lfloor>- (1 / numeral b) :: rat\<rfloor> = - 1 div numeral b"
  "\<lfloor>numeral a / numeral b :: rat\<rfloor> = numeral a div numeral b"
  "\<lfloor>- (numeral a / numeral b) :: rat\<rfloor> = - numeral a div numeral b"
  using floor_divide_of_int_eq [of 1 "numeral b", where ?'a = rat]
        floor_divide_of_int_eq [of "- 1" "numeral b", where ?'a = rat]
        floor_divide_of_int_eq [of "numeral a" "numeral b", where ?'a = rat]
        floor_divide_of_int_eq [of "- numeral a" "numeral b", where ?'a = rat]
  by simp_all




text \<open>
  C4. For a sample whose warp coordinate is outside the validity window, that is, not all
  of \<open>x > -1\<close>, \<open>y > -1\<close>, \<open>x < width\<close> and \<open>y < height\<close> hold, the functor leaves zero in
  the output cell of every channel of that sample.
\<close>

theorem forward_outside_window_zero:
  assumes "b < batch_size" and "s < num_sampling_points" and "c < data_channels"
    and "length output = batch_size * (num_sampling_points * data_channels)"
    and "x = warp ! (b * (num_sampling_points * 2) + s * 2)"
    and "y = warp ! (b * (num_sampling_points * 2) + s * 2 + 1)"
    and "\<not> (x > -1 \<and> y > -1 \<and> x < of_nat data_width \<and> y < of_nat data_height)"
  shows "Resampler2DFunctor K data warp output batch_size data_height data_width data_channels
           num_sampling_points kernel_type
           ! (b * (num_sampling_points * data_channels) + s * data_channels + c) = 0"
proof -
  have w: "\<not> in_window data_height data_width x y"
    using assms(7) by (simp add: in_window_def)
  have "Resampler2DFunctor K data warp output batch_size data_height data_width data_channels
           num_sampling_points kernel_type
           ! (b * (num_sampling_points * data_channels) + s * data_channels + c)
       = sample_value K data warp data_height data_width data_channels num_sampling_points b s c"
    by (rule Resampler2DFunctor_nth [OF assms(1-4)])
  also have "\<dots> = 0"
    using w unfolding sample_value_def assms(5,6) by (simp add: Let_def)
  finally show ?thesis .
qed

theorem forward_outside_window_zero_witness:
  "Resampler2DFunctor KeysCubicKernelFunc [1, 2, 3, 4] [2, 1/2] [7] 1 2 2 1 1 KeysCubicKernel ! 0 = 0"
  using forward_outside_window_zero [of 0 1 0 1 0 1 "[7]" 2 "[2, 1/2]" "1/2" 2 2
          KeysCubicKernelFunc "[1, 2, 3, 4]" KeysCubicKernel]
  by simp

subsection \<open>Images with an empty spatial extent\<close>

lemma sample_value_empty_image:
  assumes "H = 0 \<or> W = 0"
  shows "sample_value K data warp H W C n b s c = 0"
proof -
  have "resample_res K data H W C b x y c = 0" for x y
    unfolding resample_res_sum using assms by (intro sum.neutral ballI) auto
  then show ?thesis by (simp add: sample_value_def Let_def)
qed

text \<open>
  Were the forward functor run on an image of height 0 or width 0, it would write zero
  into every cell of the output: every candidate pixel is out of range.
\<close>

lemma Resampler2DFunctor_empty_image:
  assumes "data_height = 0 \<or> data_width = 0"
    and "length output = batch_size * (num_sampling_points * data_channels)"
  shows "Resampler2DFunctor K data warp output batch_size data_height data_width data_channels
           num_sampling_points kernel_type
         = replicate (batch_size * (num_sampling_points * data_channels)) 0"
proof -
  let ?n = "batch_size * (num_sampling_points * data_channels)"
  have wb: "writes_block (resample_batches K data warp data_height data_width data_channels
                num_sampling_points 0 batch_size) 0 ?n
           (\<lambda>j. sample_value K data warp data_height data_width data_channels num_sampling_points
                  (j div (num_sampling_points * data_channels))
                  (j mod (num_sampling_points * data_channels) div data_channels)
                  (j mod (num_sampling_points * data_channels) mod data_channels)) (length output)"
    using assms(2) by (intro writes_block_resample_batches) simp
  show ?thesis
  proof (rule nth_equalityI)
    show "length (Resampler2DFunctor K data warp output batch_size data_height data_width
                    data_channels num_sampling_points kernel_type) = length (replicate ?n (0::rat))"
      using Resampler2DFunctor_length [OF assms(2)] assms(2) by simp
  next
    fix i
    assume "i < length (Resampler2DFunctor K data warp output batch_size data_height data_width
                    data_channels num_sampling_points kernel_type)"
    then have i: "i < ?n"
      using Resampler2DFunctor_length [OF assms(2)] assms(2) by simp
    have "resample_batches K data warp data_height data_width data_channels
                num_sampling_points 0 batch_size output ! (0 + i) = 0"
      using wb i sample_value_empty_image [OF assms(1)] unfolding writes_block_def by auto
    then show "Resampler2DFunctor K data warp output batch_size data_height data_width
                    data_channels num_sampling_points kernel_type ! i = replicate ?n 0 ! i"
      using i by (simp add: Resampler2DFunctor_def)
  qed
qed

text \<open>
  C5. The claim asks that for an image with height 0 or width 0, a non-empty warp and a
  positive channel count the forward pass write zero into every element of the output.
  \<^verbatim>\<open>Compute\<close> does not: its guard runs the functor only when the image has elements, so
  for such an image it returns the output tensor, which is not empty, with the content
  it was allocated with. For the image of shape [1, 1, 0, 1], the warp coordinate
  \<open>(5, 5)\<close> and memory that held 7, the output is 7 where the claim has 0. The comment on
  the guard says that the functor is skipped for an empty output.
\<close>

theorem Compute_empty_image_output_unwritten:
  "ResamplerOp_Compute K op uninit \<lparr>shape = [b, h, 0, Suc c], flat = d\<rparr>
       \<lparr>shape = [b, n, 2], flat = w\<rparr>
     = Inr (allocate_output uninit 0 [b, n, Suc c])
 \<and> ResamplerOp_Compute K op uninit \<lparr>shape = [b, 0, h, Suc c], flat = d\<rparr>
       \<lparr>shape = [b, n, 2], flat = w\<rparr>
     = Inr (allocate_output uninit 0 [b, n, Suc c])
 \<and> ResamplerOp_Compute KeysCubicKernelFunc \<lparr>kernel_type_m = KeysCubicKernel\<rparr> (\<lambda>_ _. 7)
       \<lparr>shape = [1, 1, 0, 1], flat = []\<rparr> \<lparr>shape = [1, 1, 2], flat = [5, 5]\<rparr>
     = Inr \<lparr>shape = [1, 1, 1], flat = [7]\<rparr>
 \<and> Resampler2DFunctor KeysCubicKernelFunc [] [5, 5] [7] 1 1 0 1 1 KeysCubicKernel = [0]"
proof (intro conjI)
  show "Resampler2DFunctor KeysCubicKernelFunc [] [5, 5] [7] 1 1 0 1 1 KeysCubicKernel = [0]"
    using Resampler2DFunctor_empty_image [of 1 0 "[7]" 1 1 1 KeysCubicKernelFunc "[]" "[5, 5]"
            KeysCubicKernel]
    by simp
qed (simp_all add: ResamplerOp_Compute_def IsMatrixOrHigher_def NumElements_def
       allocate_output_def)

subsection \<open>The kernel type handed to the forward functor\<close>

lemma functor_KeysCubic_example:
  "Resampler2DFunctor KeysCubicKernelFunc [1, 2, 3, 4] [1/2, 1/2] [0] 1 2 2 1 1 TriangleKernel
     = [405/128]"
  by code_simp

lemma resample_Triangle_example:
  "resample_batches TriangleKernelFunc [1, 2, 3, 4] [1/2, 1/2] 2 2 1 1 0 1 [0] = [5/2]"
  by code_simp

text \<open>
  C1. The claim asks that the forward pass use the kernel named by \<open>kernel_type\<close>. The
  functor does not: its result is the same for any two kernel types, that of the sample
  loop run with the Keys cubic kernel object. With \<open>kernel_type = TriangleKernel\<close>, the
  2 x 2 image 1, 2, 3, 4 and the coordinate \<open>(1/2, 1/2)\<close> it returns 405/128, the Keys cubic
  result, where the triangle kernel gives 5/2.
\<close>

theorem Resampler2DFunctor_ignores_kernel_type:
  "Resampler2DFunctor K data warp output batch_size data_height data_width data_channels
      num_sampling_points kernel_type
   = Resampler2DFunctor K data warp output batch_size data_height data_width data_channels
      num_sampling_points kernel_type'
 \<and> Resampler2DFunctor KeysCubicKernelFunc [1, 2, 3, 4] [1/2, 1/2] [0] 1 2 2 1 1 TriangleKernel
     = [405/128]
 \<and> resample_batches TriangleKernelFunc [1, 2, 3, 4] [1/2, 1/2] 2 2 1 1 0 1 [0] = [5/2]"
proof (intro conjI)
  show "Resampler2DFunctor K data warp output batch_size data_height data_width data_channels
      num_sampling_points kernel_type
   = Resampler2DFunctor K data warp output batch_size data_height data_width data_channels
      num_sampling_points kernel_type'"
    by (simp add: Resampler2DFunctor_def)
qed (rule functor_KeysCubic_example resample_Triangle_example)+

subsection \<open>Shape checks of the two operators\<close>

text \<open>
  C7, as stated, fails for a warp tensor of rank 1: the forward operator answers a warp of
  shape [2] with the invalid-argument status, where the claim has every rank violation
  answered with the unimplemented status.
\<close>

theorem warp_rank_counterexample:
  "ResamplerOp_Compute KeysCubicKernelFunc \<lparr>kernel_type_m = KeysCubicKernel\<rparr> (\<lambda>_ _. 0)
       \<lparr>shape = [1, 1, 1, 1], flat = [5]\<rparr> \<lparr>shape = [2], flat = [0, 0]\<rparr>
     = Inl (InvalidArgument ''warp should be at least a matrix'')"
  by (simp add: ResamplerOp_Compute_def IsMatrixOrHigher_def)

text \<open>
  The backward operator compares no batch sizes: an image batch of 1 with a warp batch
  of 2 passes its checks, and the two warp rows are treated as two samples of batch 0.
\<close>

lemma backward_batch_mismatch_accepted:
  "ResamplerGradOp_Compute (\<lambda>x. x) (\<lambda>_ _. 7)
       \<lparr>shape = [1, 1, 1, 1], flat = [5]\<rparr> \<lparr>shape = [2, 1, 2], flat = [0, 0, 0, 0]\<rparr>
       \<lparr>shape = [2, 1, 1], flat = [1, 1]\<rparr>
     = Inr (\<lparr>shape = [1, 1, 1, 1], flat = [2]\<rparr>, \<lparr>shape = [2, 1, 2], flat = [-5, -5, -5, -5]\<rparr>)"
  by code_simp

text \<open>
  C7, amended. Both operators check, in this order and before anything is computed, that
  the image has rank 4 (otherwise unimplemented), that the warp has rank at least 2
  (otherwise invalid-argument) and that the last dimension of the warp is 2 (otherwise
  unimplemented). After these the forward operator checks that image and warp have the
  same batch size, and the backward operator that the shape of \<open>grad_output\<close> is the
  warp's shape with the last dimension replaced by the channel count (each otherwise
  invalid-argument). The first failed check is the result and no output is produced.
  When all the checks named here hold, the operator returns its outputs.
\<close>

theorem Compute_shape_checks:
  fixes data warp grad_output :: Tensor
  defines "rank_ok \<equiv> length (shape data) = 4"
    and "matrix_ok \<equiv> length (shape warp) \<ge> 2"
    and "last_ok \<equiv> shape warp ! (length (shape warp) - 1) = 2"
    and "batch_ok \<equiv> shape data ! 0 = shape warp ! 0"
    and "grad_ok \<equiv> shape grad_output = (shape warp)[length (shape warp) - 1 := shape data ! 3]"
  shows "(\<not> rank_ok \<longrightarrow>
            (\<exists>m. ResamplerOp_Compute K op uninit data warp = Inl (Unimplemented m))
          \<and> (\<exists>m. ResamplerGradOp_Compute static_cast_float uninit data warp grad_output = Inl (Unimplemented m)))
       \<and> (rank_ok \<and> \<not> matrix_ok \<longrightarrow>
            (\<exists>m. ResamplerOp_Compute K op uninit data warp = Inl (InvalidArgument m))
          \<and> (\<exists>m. ResamplerGradOp_Compute static_cast_float uninit data warp grad_output = Inl (InvalidArgument m)))
       \<and> (rank_ok \<and> matrix_ok \<and> \<not> last_ok \<longrightarrow>
            (\<exists>m. ResamplerOp_Compute K op uninit data warp = Inl (Unimplemented m))
          \<and> (\<exists>m. ResamplerGradOp_Compute static_cast_float uninit data warp grad_output = Inl (Unimplemented m)))
       \<and> (rank_ok \<and> matrix_ok \<and> last_ok \<and> \<not> batch_ok \<longrightarrow>
            (\<exists>m. ResamplerOp_Compute K op uninit data warp = Inl (InvalidArgument m)))
       \<and> (rank_ok \<and> matrix_ok \<and> last_ok \<and> \<not> grad_ok \<longrightarrow>
            (\<exists>m. ResamplerGradOp_Compute static_cast_float uninit data warp grad_output = Inl (InvalidArgument m)))
       \<and> (rank_ok \<and> matrix_ok \<and> last_ok \<and> batch_ok \<longrightarrow>
            (\<exists>out. ResamplerOp_Compute K op uninit data warp = Inr out))
       \<and> (rank_ok \<and> matrix_ok \<and> last_ok \<and> batch_ok \<and> grad_ok \<longrightarrow>
            (\<exists>grads. ResamplerGradOp_Compute static_cast_float uninit data warp grad_output = Inr grads))"
  unfolding rank_ok_def matrix_ok_def last_ok_def batch_ok_def grad_ok_def
  by (simp add: ResamplerOp_Compute_def ResamplerGradOp_Compute_def IsMatrixOrHigher_def Let_def)

theorem Compute_shape_checks_witness:
  "ResamplerOp_Compute KeysCubicKernelFunc \<lparr>kernel_type_m = KeysCubicKernel\<rparr> (\<lambda>_ _. 0)
       \<lparr>shape = [1, 1, 1], flat = [5]\<rparr> \<lparr>shape = [1, 1, 2], flat = [0, 0]\<rparr>
     = Inl (Unimplemented ''Only bilinear interpolation is currently supported.'')
 \<and> ResamplerGradOp_Compute (\<lambda>x. x) (\<lambda>_ _. 0)
       \<lparr>shape = [1, 1, 1, 1], flat = [5]\<rparr> \<lparr>shape = [1, 1, 2], flat = [0, 0]\<rparr>
       \<lparr>shape = [1, 2], flat = [1, 1]\<rparr>
     = Inl (InvalidArgument ''grad_output shape is not consistent with data and warp shapes'')"
  using Compute_shape_checks [where data = "\<lparr>shape = [1, 1, 1], flat = [5]\<rparr>"
          and warp = "\<lparr>shape = [1, 1, 2], flat = [0, 0]\<rparr>"
          and grad_output = "\<lparr>shape = [1, 2], flat = [1, 1]\<rparr>"
          and K = KeysCubicKernelFunc and op = "\<lparr>kernel_type_m = KeysCubicKernel\<rparr>"
          and uninit = "\<lambda>_ _. 0" and static_cast_float = "\<lambda>x. x"]
        Compute_shape_checks [where data = "\<lparr>shape = [1, 1, 1, 1], flat = [5]\<rparr>"
          and warp = "\<lparr>shape = [1, 1, 2], flat = [0, 0]\<rparr>"
          and grad_output = "\<lparr>shape = [1, 2], flat = [1, 1]\<rparr>"
          and K = KeysCubicKernelFunc and op = "\<lparr>kernel_type_m = KeysCubicKernel\<rparr>"
          and uninit = "\<lambda>_ _. 0" and static_cast_float = "\<lambda>x. x"]
  by (simp add: ResamplerOp_Compute_def ResamplerGradOp_Compute_def IsMatrixOrHigher_def)

subsection \<open>Degenerate calls\<close>

text \<open>
  C9, as stated, fails for a call that is degenerate and ill-shaped: an image of shape
  [0, 1, 1, 1] has no elements, and with a warp of shape [1, 1, 2] the forward operator
  fails on the batch sizes.
\<close>

theorem degenerate_call_counterexample:
  "NumElements \<lparr>shape = [0, 1, 1, 1], flat = []\<rparr> = 0
 \<and> ResamplerOp_Compute KeysCubicKernelFunc \<lparr>kernel_type_m = KeysCubicKernel\<rparr> (\<lambda>_ _. 0)
       \<lparr>shape = [0, 1, 1, 1], flat = []\<rparr> \<lparr>shape = [1, 1, 2], flat = [0, 0]\<rparr>
     = Inl (InvalidArgument ''Batch size of data and warp tensor must be the same'')"
  by (simp add: NumElements_def ResamplerOp_Compute_def IsMatrixOrHigher_def)

lemma set_last_dim:
  assumes "xs \<noteq> []"
  shows "xs[length xs - 1 := v] = butlast xs @ [v]"
  using assms by (induction xs rule: rev_induct) (simp_all add: list_update_append)

text \<open>
  C9, amended. For a degenerate call (the image or the warp has no elements) that meets
  the shape requirements (image of rank 4, warp of rank at least 2 with last dimension 2,
  equal batch sizes, \<open>grad_output\<close> of the warp's shape with the channel count last),
  forward and backward succeed; the forward output has the warp's shape with the channel
  count last, the gradients have the shapes of the image and of the warp; and no
  per-element work is done: the tensors are returned as they were allocated.
\<close>

theorem degenerate_call_no_op:
  assumes "length (shape data) = 4"
    and "length (shape warp) \<ge> 2"
    and "shape warp ! (length (shape warp) - 1) = 2"
    and "shape data ! 0 = shape warp ! 0"
    and "shape grad_output = butlast (shape warp) @ [shape data ! 3]"
    and "NumElements data = 0 \<or> NumElements warp = 0"
  shows "ResamplerOp_Compute K op uninit data warp
           = Inr (allocate_output uninit 0 (butlast (shape warp) @ [shape data ! 3]))
       \<and> ResamplerGradOp_Compute static_cast_float uninit data warp grad_output
           = Inr (allocate_output uninit 0 (shape data), allocate_output uninit 1 (shape warp))"
proof -
  have ne: "shape warp \<noteq> []" using assms(2) by auto
  have upd: "(shape warp)[length (shape warp) - Suc 0 := shape data ! 3]
               = butlast (shape warp) @ [shape data ! 3]"
    using set_last_dim [OF ne] by simp
  have guard: "(NumElements data > 0 \<and> NumElements warp > 0) = False"
    using assms(6) by auto
  show ?thesis
    using assms(1-5)
    by (simp add: ResamplerOp_Compute_def ResamplerGradOp_Compute_def IsMatrixOrHigher_def
          Let_def upd guard)
qed

theorem degenerate_call_no_op_witness:
  "ResamplerOp_Compute KeysCubicKernelFunc \<lparr>kernel_type_m = KeysCubicKernel\<rparr> (\<lambda>_ _. 7)
       \<lparr>shape = [2, 0, 3, 1], flat = []\<rparr> \<lparr>shape = [2, 1, 2], flat = [0, 0, 1, 1]\<rparr>
     = Inr \<lparr>shape = [2, 1, 1], flat = [7, 7]\<rparr>
 \<and> ResamplerGradOp_Compute (\<lambda>x. x) (\<lambda>_ _. 7)
       \<lparr>shape = [2, 0, 3, 1], flat = []\<rparr> \<lparr>shape = [2, 1, 2], flat = [0, 0, 1, 1]\<rparr>
       \<lparr>shape = [2, 1, 1], flat = [1, 1]\<rparr>
     = Inr (\<lparr>shape = [2, 0, 3, 1], flat = []\<rparr>, \<lparr>shape = [2, 1, 2], flat = [7, 7, 7, 7]\<rparr>)"
  using degenerate_call_no_op [where data = "\<lparr>shape = [2, 0, 3, 1], flat = []\<rparr>"
          and warp = "\<lparr>shape = [2, 1, 2], flat = [0, 0, 1, 1]\<rparr>"
          and grad_output = "\<lparr>shape = [2, 1, 1], flat = [1, 1]\<rparr>"
          and K = KeysCubicKernelFunc and op = "\<lparr>kernel_type_m = KeysCubicKernel\<rparr>"
          and uninit = "\<lambda>_ _. 7" and static_cast_float = "\<lambda>x. x"]
  by (simp add: NumElements_def allocate_output_def upt_rec)


subsection \<open>The backward pass outside the validity window\<close>

lemma fold_removeAll_skip:
  assumes "\<And>a. f s a = a"
  shows "fold f xs a = fold f (removeAll s xs) a"
  by (induction xs arbitrary: a) (auto simp: assms)

lemma update_grads_sample_outside:
  assumes "\<not> in_window H W (warp ! (b * (n * 2) + s * 2)) (warp ! (b * (n * 2) + s * 2 + 1))"
  shows "update_grads_sample static_cast_float data warp grad_output H W C n b s grads = grads"
  using assms by (simp add: update_grads_sample_def Let_def)

text \<open>
  C8. A backward sample whose warp coordinate is outside the validity window changes
  neither gradient buffer: the body of the sample loop returns both buffers as they
  were, and the whole pass over the batches gives, in every cell of both buffers, what it
  gives when that sample is left out of its batch's sample loop.
\<close>

theorem backward_outside_window_no_effect:
  assumes "x = warp ! (b * (num_sampling_points * 2) + s * 2)"
    and "y = warp ! (b * (num_sampling_points * 2) + s * 2 + 1)"
    and "\<not> (x > -1 \<and> y > -1 \<and> x < of_nat data_width \<and> y < of_nat data_height)"
  shows "update_grads_sample static_cast_float data warp grad_output data_height data_width data_channels
           num_sampling_points b s (grad_data, grad_warp) = (grad_data, grad_warp)
       \<and> update_grads_for_batches static_cast_float data warp grad_output data_height data_width data_channels
           num_sampling_points start limit (grad_data, grad_warp)
         = fold (\<lambda>batch_id.
              fold (update_grads_sample static_cast_float data warp grad_output data_height data_width data_channels
                      num_sampling_points batch_id)
                (if batch_id = b then removeAll s [0..<num_sampling_points]
                 else [0..<num_sampling_points]))
             [start..<limit] (grad_data, grad_warp)"
proof -
  have w: "\<not> in_window data_height data_width
              (warp ! (b * (num_sampling_points * 2) + s * 2))
              (warp ! (b * (num_sampling_points * 2) + s * 2 + 1))"
    using assms by (simp add: in_window_def)
  have skip: "update_grads_sample static_cast_float data warp grad_output data_height data_width data_channels
           num_sampling_points b s grads = grads" for grads
    by (rule update_grads_sample_outside [OF w])
  have inner: "fold (update_grads_sample static_cast_float data warp grad_output data_height data_width
                   data_channels num_sampling_points batch_id) [0..<num_sampling_points]
             = fold (update_grads_sample static_cast_float data warp grad_output data_height data_width
                   data_channels num_sampling_points batch_id)
                 (if batch_id = b then removeAll s [0..<num_sampling_points]
                  else [0..<num_sampling_points])" for batch_id
  proof (cases "batch_id = b")
    case True
    show ?thesis
      unfolding True using fold_removeAll_skip [of "update_grads_sample static_cast_float data warp grad_output
          data_height data_width data_channels num_sampling_points b" s, OF skip]
      by (simp add: fun_eq_iff)
  next
    case False
    then show ?thesis by simp
  qed
  show ?thesis
    unfolding update_grads_for_batches_def using skip inner by simp
qed

theorem backward_outside_window_no_effect_witness:
  "update_grads_sample (\<lambda>x. x) [1, 2, 3, 4] [1/2, 1/2, 2, 0] [1, 1] 2 2 1 2 0 1
       ([5, 6, 7, 8], [1, 2, 3, 4]) = ([5, 6, 7, 8], [1, 2, 3, 4])
 \<and> update_grads_for_batches (\<lambda>x. x) [1, 2, 3, 4] [1/2, 1/2, 2, 0] [1, 1] 2 2 1 2 0 1
       ([5, 6, 7, 8], [1, 2, 3, 4])
     = update_grads_sample (\<lambda>x. x) [1, 2, 3, 4] [1/2, 1/2, 2, 0] [1, 1] 2 2 1 2 0 0
         ([5, 6, 7, 8], [1, 2, 3, 4])"
  using backward_outside_window_no_effect [of 2 "[1/2, 1/2, 2, 0]" 0 2 1 0 2 2 "\<lambda>x. x"
          "[1, 2, 3, 4]" "[1, 1]" 1 "[5, 6, 7, 8]" "[1, 2, 3, 4]" 0 1]
  by (simp add: upt_rec)

subsection \<open>The backward pass inside the validity window\<close>

lemma length_update_grad_data [simp]:
  "length (update_grad_data H W C b x y chan v gd) = length gd"
  by (simp add: update_grad_data_def Let_def)

lemma length_update_grad_warp [simp]:
  "length (update_grad_warp n b s ch v gw) = length gw"
  by (simp add: update_grad_warp_def Let_def)

lemma update_grad_data_nth:
  assumes "point_is_in_range H W x y \<Longrightarrow> data_index H W C b x y chan < length gd"
  shows "update_grad_data H W C b x y chan v gd ! j
           = gd ! j + (if point_is_in_range H W x y \<and> j = data_index H W C b x y chan
                       then v else 0)"
  using assms by (simp add: update_grad_data_def Let_def nth_list_update)

lemma update_grad_warp_nth:
  assumes "b * (n * 2) + s * 2 + ch < length gw"
  shows "update_grad_warp n b s ch v gw ! j
           = gw ! j + (if j = b * (n * 2) + s * 2 + ch then v else 0)"
  using assms by (simp add: update_grad_warp_def Let_def nth_list_update)

lemma update_grads_channel_length:
  "length (fst (update_grads_channel data grad_output H W C n b s fx fy cx cy dx dy chan (gd, gw)))
     = length gd"
  "length (snd (update_grads_channel data grad_output H W C n b s fx fy cx cy dx dy chan (gd, gw)))
     = length gw"
  by (simp_all add: Let_def)

lemma update_grads_channel_data_nth:
  assumes "\<And>x y. point_is_in_range H W x y \<Longrightarrow> data_index H W C b x y chan < length gd"
  shows "fst (update_grads_channel data grad_output H W C n b s fx fy cx cy dx dy chan (gd, gw)) ! j
           = gd ! j + grad_data_addend grad_output H W C n b s fx fy cx cy dx dy chan j"
  using assms
  by (simp add: Let_def update_grad_data_nth grad_data_addend_def)

lemma update_grads_channel_warp_nth:
  assumes "b * (n * 2) + s * 2 + 1 < length gw"
  shows "snd (update_grads_channel data grad_output H W C n b s fx fy cx cy dx dy chan (gd, gw)) ! j
           = gw ! j + grad_warp_addend data grad_output H W C n b s fx fy cx cy dx dy chan j"
  using assms
  by (simp add: Let_def update_grad_warp_nth grad_warp_addend_def)



lemma fold_update_grads_channel:
  assumes bound: "\<And>x y chan. chan < m \<Longrightarrow> point_is_in_range H W x y
                    \<Longrightarrow> data_index H W C b x y chan < length gd"
    and wbound: "b * (n * 2) + s * 2 + 1 < length gw"
  shows "length (fst (fold (update_grads_channel data grad_output H W C n b s fx fy cx cy dx dy)
                    [0..<m] (gd, gw))) = length gd
       \<and> length (snd (fold (update_grads_channel data grad_output H W C n b s fx fy cx cy dx dy)
                    [0..<m] (gd, gw))) = length gw
       \<and> (\<forall>j. fst (fold (update_grads_channel data grad_output H W C n b s fx fy cx cy dx dy)
                    [0..<m] (gd, gw)) ! j
              = gd ! j + (\<Sum>chan<m. grad_data_addend grad_output H W C n b s fx fy cx cy dx dy chan j))
       \<and> (\<forall>j. snd (fold (update_grads_channel data grad_output H W C n b s fx fy cx cy dx dy)
                    [0..<m] (gd, gw)) ! j
              = gw ! j + (\<Sum>chan<m. grad_warp_addend data grad_output H W C n b s fx fy cx cy dx dy chan j))"
  using bound
proof (induction m)
  case 0
  show ?case by simp
next
  case (Suc m)
  let ?step = "update_grads_channel data grad_output H W C n b s fx fy cx cy dx dy"
  obtain gd1 gw1 where mid: "fold ?step [0..<m] (gd, gw) = (gd1, gw1)"
    by (cases "fold ?step [0..<m] (gd, gw)") auto
  have IH: "length gd1 = length gd" "length gw1 = length gw"
    "\<And>j. gd1 ! j = gd ! j + (\<Sum>chan<m. grad_data_addend grad_output H W C n b s fx fy cx cy dx dy chan j)"
    "\<And>j. gw1 ! j = gw ! j + (\<Sum>chan<m. grad_warp_addend data grad_output H W C n b s fx fy cx cy dx dy chan j)"
    using Suc.IH Suc.prems mid by simp_all
  have fin: "fold ?step [0..<Suc m] (gd, gw) = ?step m (gd1, gw1)"
    using mid by simp
  have b1: "\<And>x y. point_is_in_range H W x y \<Longrightarrow> data_index H W C b x y m < length gd1"
    using Suc.prems [of m] IH(1) by simp
  have w1: "b * (n * 2) + s * 2 + 1 < length gw1"
    using wbound IH(2) by simp
  have L: "length (fst (?step m (gd1, gw1))) = length gd"
          "length (snd (?step m (gd1, gw1))) = length gw"
    using update_grads_channel_length [of data grad_output H W C n b s fx fy cx cy dx dy m gd1 gw1]
      IH(1,2) by simp_all
  have D: "fst (?step m (gd1, gw1)) ! j
             = gd ! j + (\<Sum>chan<Suc m. grad_data_addend grad_output H W C n b s fx fy cx cy dx dy chan j)"
    for j
    using update_grads_channel_data_nth [of H W C b m gd1 data grad_output n s fx fy cx cy dx dy gw1 j, OF b1]
      IH(3) [of j] by simp
  have Wp: "snd (?step m (gd1, gw1)) ! j
             = gw ! j + (\<Sum>chan<Suc m. grad_warp_addend data grad_output H W C n b s fx fy cx cy dx dy chan j)"
    for j
    using update_grads_channel_warp_nth [of b n s gw1 data grad_output H W C fx fy cx cy dx dy m gd1 j, OF w1]
      IH(4) [of j] by simp
  show ?case unfolding fin using L D Wp by blast
qed

lemma block_less:
  fixes a A r m :: nat
  assumes "a < A" "r < m"
  shows "a * m + r < A * m"
proof -
  have "a * m + r < a * m + m" using assms(2) by simp
  also have "\<dots> = Suc a * m" by simp
  also have "\<dots> \<le> A * m" using assms(1) by (intro mult_le_mono1) simp
  finally show ?thesis .
qed

lemma data_index_bound:
  assumes "point_is_in_range H W x y" "c < C" "b < bs"
  shows "data_index H W C b x y c < bs * (H * W * C)"
proof -
  have x: "nat x < W" and y: "nat y < H"
    using assms(1) by (auto simp: point_is_in_range_def)
  have "b * H + nat y < bs * H" using assms(3) y by (rule block_less)
  then have "(b * H + nat y) * W + nat x < bs * H * W" using x by (rule block_less)
  then have "((b * H + nat y) * W + nat x) * C + c < bs * H * W * C"
    using assms(2) by (rule block_less)
  then show ?thesis
    by (simp add: data_index_NHWC [OF assms(1)] mult.assoc)
qed

lemma block_eq_iff:
  fixes a a' r r' m :: nat
  assumes "r < m" "r' < m"
  shows "a * m + r = a' * m + r' \<longleftrightarrow> a = a' \<and> r = r'"
proof
  assume eq: "a * m + r = a' * m + r'"
  have "(a * m + r) div m = a" "(a * m + r) mod m = r"
    using block_div_mod [OF assms(1), of a] by simp_all
  moreover have "(a' * m + r') div m = a'" "(a' * m + r') mod m = r'"
    using block_div_mod [OF assms(2), of a'] by simp_all
  ultimately show "a = a' \<and> r = r'" using eq by metis
qed simp

lemma data_index_eq_iff:
  assumes "point_is_in_range H W x y" "point_is_in_range H W x' y'" "c < C" "c' < C"
  shows "data_index H W C b x y c = data_index H W C b x' y' c'
           \<longleftrightarrow> x = x' \<and> y = y' \<and> c = c'"
proof -
  have x: "nat x < W" "0 \<le> x" and y: "nat y < H" "0 \<le> y"
    using assms(1) by (auto simp: point_is_in_range_def)
  have x': "nat x' < W" "0 \<le> x'" and y': "nat y' < H" "0 \<le> y'"
    using assms(2) by (auto simp: point_is_in_range_def)
  have "data_index H W C b x y c = data_index H W C b x' y' c'
          \<longleftrightarrow> ((b * H + nat y) * W + nat x) * C + c = ((b * H + nat y') * W + nat x') * C + c'"
    by (simp add: data_index_NHWC [OF assms(1)] data_index_NHWC [OF assms(2)])
  also have "\<dots> \<longleftrightarrow> (b * H + nat y) * W + nat x = (b * H + nat y') * W + nat x' \<and> c = c'"
    using assms(3,4) by (rule block_eq_iff)
  also have "\<dots> \<longleftrightarrow> (b * H + nat y = b * H + nat y' \<and> nat x = nat x') \<and> c = c'"
    using block_eq_iff [OF x(1) x'(1)] by simp
  also have "\<dots> \<longleftrightarrow> x = x' \<and> y = y' \<and> c = c'"
    using x(2) x'(2) y(2) y'(2) by auto
  finally show ?thesis .
qed

lemma sum_single:
  fixes f :: "nat \<Rightarrow> rat"
  assumes "k < m" "\<And>i. i < m \<Longrightarrow> i \<noteq> k \<Longrightarrow> f i = 0"
  shows "(\<Sum>i<m. f i) = f k"
proof -
  have "(\<Sum>i<m. f i) = (\<Sum>i<m. if i = k then f k else 0)"
    using assms(2) by (intro sum.cong) auto
  also have "\<dots> = f k" using assms(1) by simp
  finally show ?thesis .
qed

lemma grad_data_addend_other_channel:
  assumes "point_is_in_range H W px py" "chan0 < C" "chan < C" "chan \<noteq> chan0"
  shows "grad_data_addend go H W C n b s fx fy cx cy dx dy chan (data_index H W C b px py chan0) = 0"
proof -
  have nohit: "(point_is_in_range H W x y
                 \<and> data_index H W C b px py chan0 = data_index H W C b x y chan) = False" for x y
  proof -
    have "chan0 = chan"
      if "point_is_in_range H W x y"
        and "data_index H W C b px py chan0 = data_index H W C b x y chan"
      using that(2) data_index_eq_iff [OF assms(1) that(1) assms(2) assms(3), of b] by blast
    then show ?thesis using assms(4) by blast
  qed
  show ?thesis
    unfolding grad_data_addend_def Let_def nohit by simp
qed

lemma grad_data_addend_corner:
  assumes "point_is_in_range H W px py" "chan < C"
  shows "grad_data_addend go H W C n b s fx fy cx cy dx dy chan (data_index H W C b px py chan)
           = (let g = go ! (b * (n * C) + s * C + chan) in
              (if (px, py) = (fx, fy) then g * dx * dy else 0)
            + (if (px, py) = (cx, cy) then g * (1 - dx) * (1 - dy) else 0)
            + (if (px, py) = (fx, cy) then g * dx * (1 - dy) else 0)
            + (if (px, py) = (cx, fy) then g * (1 - dx) * dy else 0))"
proof -
  have hit: "(point_is_in_range H W x y
               \<and> data_index H W C b px py chan = data_index H W C b x y chan)
               = ((px, py) = (x, y))" for x y
  proof (cases "point_is_in_range H W x y")
    case True
    show ?thesis
      using True data_index_eq_iff [OF assms(1) True assms(2) assms(2), of b] by simp
  next
    case False
    then show ?thesis using assms(1) by blast
  qed
  show ?thesis
    unfolding grad_data_addend_def Let_def hit ..
qed

text \<open>
  What the body of the sample loop does for a sample inside the validity window, with
  \<open>fx\<close> and \<open>fy\<close> the floors of the cast coordinates, \<open>cx = fx + 1\<close>, \<open>cy = fy + 1\<close>,
  \<open>dx = cx - x\<close>, \<open>dy = cy - y\<close>: for every channel with upstream gradient \<open>g\<close> it adds
  \<open>g * ((1 - dy) * (I_cc - I_fc) + dy * (I_cf - I_ff))\<close> to the x entry of \<open>grad_warp\<close>,
  \<open>g * ((1 - dx) * (I_cc - I_cf) + dx * (I_fc - I_ff))\<close> to its y entry,
  \<open>g * dx * dy\<close> to \<open>grad_data\<close> at \<open>(fx, fy)\<close>, \<open>g * (1 - dx) * (1 - dy)\<close> at \<open>(cx, cy)\<close>,
  \<open>g * dx * (1 - dy)\<close> at \<open>(fx, cy)\<close> and \<open>g * (1 - dx) * dy\<close> at \<open>(cx, fy)\<close>, where a
  corner outside the image reads as zero and receives nothing. No other cell of either
  buffer changes. Where the cast does not move the coordinate across an integer, \<open>fx\<close> and
  \<open>fy\<close> are the floors of \<open>x\<close> and \<open>y\<close>.
\<close>

lemma update_grads_sample_in_window:
  fixes x y dx dy :: rat and fx fy cx cy :: int
  assumes "b < batch_size" and "s < num_sampling_points"
    and "length grad_data = batch_size * (data_height * data_width * data_channels)"
    and "length grad_warp = batch_size * (num_sampling_points * 2)"
    and "x = warp ! (b * (num_sampling_points * 2) + s * 2)"
    and "y = warp ! (b * (num_sampling_points * 2) + s * 2 + 1)"
    and "x > -1" and "y > -1" and "x < of_nat data_width" and "y < of_nat data_height"
    and "fx = \<lfloor>static_cast_float x\<rfloor>" and "fy = \<lfloor>static_cast_float y\<rfloor>" and "cx = fx + 1" and "cy = fy + 1"
    and "dx = of_int cx - x" and "dy = of_int cy - y"
    and "update_grads_sample static_cast_float data warp grad_output data_height data_width data_channels
           num_sampling_points b s (grad_data, grad_warp) = (grad_data', grad_warp')"
  defines "g \<equiv> \<lambda>chan. grad_output ! (b * (num_sampling_points * data_channels)
                                      + s * data_channels + chan)"
    and "img \<equiv> \<lambda>px py chan. get_data_point data data_height data_width data_channels b px py chan"
    and "cell \<equiv> \<lambda>px py chan. data_index data_height data_width data_channels b px py chan"
    and "inside \<equiv> \<lambda>px py. point_is_in_range data_height data_width px py"
  shows "grad_warp' ! (b * (num_sampling_points * 2) + s * 2)
           = grad_warp ! (b * (num_sampling_points * 2) + s * 2)
             + (\<Sum>chan<data_channels.
                  g chan * ((1 - dy) * (img cx cy chan - img fx cy chan)
                            + dy * (img cx fy chan - img fx fy chan)))
       \<and> grad_warp' ! (b * (num_sampling_points * 2) + s * 2 + 1)
           = grad_warp ! (b * (num_sampling_points * 2) + s * 2 + 1)
             + (\<Sum>chan<data_channels.
                  g chan * ((1 - dx) * (img cx cy chan - img cx fy chan)
                            + dx * (img fx cy chan - img fx fy chan)))
       \<and> (\<forall>j. j \<noteq> b * (num_sampling_points * 2) + s * 2
              \<and> j \<noteq> b * (num_sampling_points * 2) + s * 2 + 1
              \<longrightarrow> grad_warp' ! j = grad_warp ! j)
       \<and> (\<forall>chan<data_channels.
             (inside fx fy \<longrightarrow>
                grad_data' ! cell fx fy chan = grad_data ! cell fx fy chan + g chan * dx * dy)
           \<and> (inside cx cy \<longrightarrow>
                grad_data' ! cell cx cy chan
                  = grad_data ! cell cx cy chan + g chan * (1 - dx) * (1 - dy))
           \<and> (inside fx cy \<longrightarrow>
                grad_data' ! cell fx cy chan
                  = grad_data ! cell fx cy chan + g chan * dx * (1 - dy))
           \<and> (inside cx fy \<longrightarrow>
                grad_data' ! cell cx fy chan
                  = grad_data ! cell cx fy chan + g chan * (1 - dx) * dy))
       \<and> (\<forall>j. (\<forall>chan<data_channels. \<forall>p\<in>{(fx, fy), (cx, cy), (fx, cy), (cx, fy)}.
                   inside (fst p) (snd p) \<longrightarrow> j \<noteq> cell (fst p) (snd p) chan)
              \<longrightarrow> grad_data' ! j = grad_data ! j)"
proof -
  let ?H = data_height and ?W = data_width and ?C = data_channels and ?n = num_sampling_points
  let ?ix = "b * (?n * 2) + s * 2"
  let ?step = "update_grads_channel data grad_output ?H ?W ?C ?n b s fx fy cx cy dx dy"
  let ?dadd = "grad_data_addend grad_output ?H ?W ?C ?n b s fx fy cx cy dx dy"
  let ?wadd = "grad_warp_addend data grad_output ?H ?W ?C ?n b s fx fy cx cy dx dy"
  have w: "in_window ?H ?W x y"
    using assms(7-10) by (simp add: in_window_def)
  have res: "fold ?step [0..<?C] (grad_data, grad_warp) = (grad_data', grad_warp')"
    using assms(17) w unfolding update_grads_sample_def assms(5,6)[symmetric]
    by (simp add: Let_def assms(11-16))
  have bound: "\<And>px py chan. chan < ?C \<Longrightarrow> point_is_in_range ?H ?W px py
                 \<Longrightarrow> data_index ?H ?W ?C b px py chan < length grad_data"
    unfolding assms(3) using assms(1) by (intro data_index_bound)
  have "s * 2 + 1 < ?n * 2" using assms(2) by simp
  then have "b * (?n * 2) + (s * 2 + 1) < batch_size * (?n * 2)"
    by (rule block_less [OF assms(1)])
  then have wbound: "?ix + 1 < length grad_warp"
    using assms(4) by (simp add: add.assoc)
  note F = fold_update_grads_channel [of ?C ?H ?W ?C b grad_data ?n s grad_warp data grad_output
             fx fy cx cy dx dy, OF bound wbound, unfolded res fst_conv snd_conv]
  have D: "grad_data' ! j = grad_data ! j + (\<Sum>chan<?C. ?dadd chan j)" for j
    using F by blast
  have Wp: "grad_warp' ! j = grad_warp ! j + (\<Sum>chan<?C. ?wadd chan j)" for j
    using F by blast
  have W0: "grad_warp' ! ?ix = grad_warp ! ?ix
             + (\<Sum>chan<?C. g chan * ((1 - dy) * (img cx cy chan - img fx cy chan)
                            + dy * (img cx fy chan - img fx fy chan)))"
    unfolding Wp [of ?ix] by (simp add: grad_warp_addend_def g_def img_def Let_def)
  have W1: "grad_warp' ! (?ix + 1) = grad_warp ! (?ix + 1)
             + (\<Sum>chan<?C. g chan * ((1 - dx) * (img cx cy chan - img cx fy chan)
                            + dx * (img fx cy chan - img fx fy chan)))"
    unfolding Wp [of "?ix + 1"] by (simp add: grad_warp_addend_def g_def img_def Let_def)
  have W2: "grad_warp' ! j = grad_warp ! j" if "j \<noteq> ?ix \<and> j \<noteq> ?ix + 1" for j
    unfolding Wp [of j] using that by (simp add: grad_warp_addend_def Let_def)
  have corner: "grad_data' ! cell px py chan
      = grad_data ! cell px py chan
        + ((if (px, py) = (fx, fy) then g chan * dx * dy else 0)
         + (if (px, py) = (cx, cy) then g chan * (1 - dx) * (1 - dy) else 0)
         + (if (px, py) = (fx, cy) then g chan * dx * (1 - dy) else 0)
         + (if (px, py) = (cx, fy) then g chan * (1 - dx) * dy else 0))"
    if "chan < ?C" "inside px py" for px py chan
  proof -
    have p: "point_is_in_range ?H ?W px py" using that(2) by (simp add: inside_def)
    have "(\<Sum>c<?C. ?dadd c (cell px py chan)) = ?dadd chan (cell px py chan)"
      using that(1) unfolding cell_def
      by (intro sum_single grad_data_addend_other_channel [OF p]) simp_all
    also have "\<dots> = (if (px, py) = (fx, fy) then g chan * dx * dy else 0)
         + (if (px, py) = (cx, cy) then g chan * (1 - dx) * (1 - dy) else 0)
         + (if (px, py) = (fx, cy) then g chan * dx * (1 - dy) else 0)
         + (if (px, py) = (cx, fy) then g chan * (1 - dx) * dy else 0)"
      unfolding cell_def grad_data_addend_corner [OF p that(1)] g_def Let_def ..
    finally show ?thesis unfolding D [of "cell px py chan"] by simp
  qed
  have D1: "(inside fx fy \<longrightarrow>
                grad_data' ! cell fx fy chan = grad_data ! cell fx fy chan + g chan * dx * dy)
           \<and> (inside cx cy \<longrightarrow>
                grad_data' ! cell cx cy chan
                  = grad_data ! cell cx cy chan + g chan * (1 - dx) * (1 - dy))
           \<and> (inside fx cy \<longrightarrow>
                grad_data' ! cell fx cy chan
                  = grad_data ! cell fx cy chan + g chan * dx * (1 - dy))
           \<and> (inside cx fy \<longrightarrow>
                grad_data' ! cell cx fy chan
                  = grad_data ! cell cx fy chan + g chan * (1 - dx) * dy)"
    if "chan < ?C" for chan
    using corner [OF that, of fx fy] corner [OF that, of cx cy] corner [OF that, of fx cy]
      corner [OF that, of cx fy] assms(13,14)
    by simp
  have D2: "grad_data' ! j = grad_data ! j"
    if "\<forall>chan<?C. \<forall>p\<in>{(fx, fy), (cx, cy), (fx, cy), (cx, fy)}.
                   inside (fst p) (snd p) \<longrightarrow> j \<noteq> cell (fst p) (snd p) chan" for j
  proof -
    have "?dadd chan j = 0" if "chan < ?C" for chan
      using \<open>\<forall>chan<?C. \<forall>p\<in>{(fx, fy), (cx, cy), (fx, cy), (cx, fy)}.
                   inside (fst p) (snd p) \<longrightarrow> j \<noteq> cell (fst p) (snd p) chan\<close> that
      by (auto simp: grad_data_addend_def Let_def inside_def cell_def)
    then have "(\<Sum>chan<?C. ?dadd chan j) = 0" by simp
    then show ?thesis unfolding D [of j] by simp
  qed
  show ?thesis
    using W0 W1 W2 D1 D2 by (simp only: simp_thms) blast
qed

subsection \<open>The floor of the cast coordinate\<close>

lemma double_to_float_below_one: "double_to_float (1 - 1 / 2 ^ 31) = 1"
  by code_simp

lemma ResamplerGrad2DFunctor_double_example:
  "ResamplerGrad2DFunctor double_to_float [10, 20, 40] [1 - 1 / 2 ^ 31, 0] [1] [7, 7, 7] [7, 7]
       1 1 3 1 1
     = ([0, 1 + 1 / 2 ^ 31, - (1 / 2 ^ 31)], [20, 20 / 2 ^ 31 - 20])"
  by code_simp

lemma ResamplerGrad2DFunctor_exact_floor_example:
  "ResamplerGrad2DFunctor (\<lambda>x. x) [10, 20, 40] [1 - 1 / 2 ^ 31, 0] [1] [7, 7, 7] [7, 7]
       1 1 3 1 1
     = ([1 / 2 ^ 31, 1 - 1 / 2 ^ 31, 0], [10, 10 / 2 ^ 31 - 20])"
  by code_simp

lemma ResamplerGradOp_Compute_double_example:
  "ResamplerGradOp_Compute double_to_float (\<lambda>_ _. 7)
       \<lparr>shape = [1, 1, 3, 1], flat = [10, 20, 40]\<rparr>
       \<lparr>shape = [1, 1, 2], flat = [1 - 1 / 2 ^ 31, 0]\<rparr>
       \<lparr>shape = [1, 1, 1], flat = [1]\<rparr>
     = Inr (\<lparr>shape = [1, 1, 3, 1], flat = [0, 1 + 1 / 2 ^ 31, - (1 / 2 ^ 31)]\<rparr>,
            \<lparr>shape = [1, 1, 2], flat = [20, 20 / 2 ^ 31 - 20]\<rparr>)"
  by code_simp

text \<open>
  C2. The claim has \<open>fx = \<lfloor>x\<rfloor>\<close>. The backward pass takes the floor of the coordinate cast
  to \<^verbatim>\<open>float\<close> and \<open>dx\<close> of the coordinate itself. For \<^verbatim>\<open>T = double\<close> the cast rounds, and
  \<open>1 - 2^-31\<close> becomes 1. On the image of height 1 and width 3 with the pixels 10, 20, 40,
  the coordinate \<open>(1 - 2^-31, 0)\<close> and the upstream gradient 1, the backward pass takes
  \<open>fx = 1\<close> and \<open>dx = 1 + 2^-31\<close> and adds 20 to the x entry of \<open>grad_warp\<close>, the slope of
  the cell to the right of the coordinate. With the floor of the coordinate itself, as the
  claim has it, \<open>fx = 0\<close>, \<open>dx = 2^-31\<close> and the x entry receives 10.
\<close>

theorem backward_floor_of_cast_coordinate:
  "double_to_float (1 - 1 / 2 ^ 31) = 1
 \<and> ResamplerGrad2DFunctor double_to_float [10, 20, 40] [1 - 1 / 2 ^ 31, 0] [1] [7, 7, 7] [7, 7]
       1 1 3 1 1
     = ([0, 1 + 1 / 2 ^ 31, - (1 / 2 ^ 31)], [20, 20 / 2 ^ 31 - 20])
 \<and> ResamplerGradOp_Compute double_to_float (\<lambda>_ _. 7)
       \<lparr>shape = [1, 1, 3, 1], flat = [10, 20, 40]\<rparr>
       \<lparr>shape = [1, 1, 2], flat = [1 - 1 / 2 ^ 31, 0]\<rparr>
       \<lparr>shape = [1, 1, 1], flat = [1]\<rparr>
     = Inr (\<lparr>shape = [1, 1, 3, 1], flat = [0, 1 + 1 / 2 ^ 31, - (1 / 2 ^ 31)]\<rparr>,
            \<lparr>shape = [1, 1, 2], flat = [20, 20 / 2 ^ 31 - 20]\<rparr>)
 \<and> ResamplerGrad2DFunctor (\<lambda>x. x) [10, 20, 40] [1 - 1 / 2 ^ 31, 0] [1] [7, 7, 7] [7, 7]
       1 1 3 1 1
     = ([1 / 2 ^ 31, 1 - 1 / 2 ^ 31, 0], [10, 10 / 2 ^ 31 - 20])"
  by (intro conjI double_to_float_below_one ResamplerGrad2DFunctor_double_example
        ResamplerGradOp_Compute_double_example ResamplerGrad2DFunctor_exact_floor_example)

end
